theory Spec2Isabelle
  imports Main
begin

section \<open>Result-checked operations of \<^verbatim>\<open>cpp_nodiscard_errors.cpp\<close>\<close>

text \<open>
  The source file declares an enumeration of error codes, three operations that
  return one, and a \<^verbatim>\<open>main\<close> that calls the three in sequence and checks the
  first two results. The embedding below keeps the names of the source.
\<close>

subsection \<open>Data model\<close>

text \<open>
  \<^verbatim>\<open>enum class ErrorCode { OK, Fatal, System, FileIssue };\<close>
\<close>

datatype ErrorCode = OK | Fatal | System | FileIssue

text \<open>
  A C++ function may act on the environment of the process (write to the standard
  streams, touch files, send mail). The environment is passed explicitly, so that
  the absence of an effect is a statement about a function and not a convention of
  the notation. Its one named component is the text written to the standard
  streams; the record is extensible, and the operations are defined for every
  extension of it, so whatever else the environment holds is covered as well.
\<close>

record world =
  stdout :: "string list"

type_synonym 'a operation = "'a world_scheme \<Rightarrow> ErrorCode \<times> 'a world_scheme"

subsection \<open>The three operations\<close>

text \<open>
  \<^verbatim>\<open>ErrorCode OpenFile(std::string_view fileName) { return ErrorCode::OK; }\<close>
\<close>

definition OpenFile :: "string \<Rightarrow> 'a operation" where
  "OpenFile fileName w = (OK, w)"

text \<open>
  \<^verbatim>\<open>ErrorCode SendEmail(std::string_view sendto, std::string_view text) { return ErrorCode::OK; }\<close>
\<close>

definition SendEmail :: "string \<Rightarrow> string \<Rightarrow> 'a operation" where
  "SendEmail sendto text w = (OK, w)"

text \<open>
  \<^verbatim>\<open>ErrorCode SystemCall(std::string_view text) { return ErrorCode::OK; }\<close>
\<close>

definition SystemCall :: "string \<Rightarrow> 'a operation" where
  "SystemCall text w = (OK, w)"

subsection \<open>The driver\<close>

text \<open>
  A run of \<^verbatim>\<open>main\<close> is observed through its exit code, the calls it made (each
  with its arguments and the status it returned, oldest first) and the environment
  it leaves behind.
\<close>

datatype call =
    OpenFile_call string
  | SendEmail_call string string
  | SystemCall_call string

record 'a process =
  trace :: "(call \<times> ErrorCode) list"
  env :: "'a world_scheme"

text \<open>
  One call at a call site of \<^verbatim>\<open>main\<close>: the operation runs on the current
  environment, and the call is entered in the trace with the status it returned.
\<close>

definition invoke :: "call \<Rightarrow> 'a operation \<Rightarrow> 'a process \<Rightarrow> ErrorCode \<times> 'a process" where
  "invoke c f p =
     (case f (env p) of
        (r, w') \<Rightarrow> (r, \<lparr>trace = trace p @ [(c, r)], env = w'\<rparr>))"

text \<open>
  The body of \<^verbatim>\<open>main\<close>, with the three callees as parameters, so that the claims
  about statuses other than the ones the stubs return can be stated:
  \<^verbatim>\<open>
  int main()
  {
      if (OpenFile("test.txt") != ErrorCode::OK)
          return 1;
      if (SendEmail("joe", "hello") != ErrorCode::OK)
          return 1;
      SystemCall("cd ..");
  }
  \<close>
  Control that reaches the end of \<^verbatim>\<open>main\<close> returns \<open>0\<close>. The result is the exit
  code and the final process state.
\<close>

definition main_driver ::
  "(string \<Rightarrow> 'a operation) \<Rightarrow> (string \<Rightarrow> string \<Rightarrow> 'a operation) \<Rightarrow>
   (string \<Rightarrow> 'a operation) \<Rightarrow> 'a world_scheme \<Rightarrow> int \<times> 'a process" where
  "main_driver openFile sendEmail systemCall w =
     (case invoke (OpenFile_call ''test.txt'') (openFile ''test.txt'')
             \<lparr>trace = [], env = w\<rparr> of
        (r1, p1) \<Rightarrow>
          if r1 \<noteq> OK then (1, p1)
          else
            (case invoke (SendEmail_call ''joe'' ''hello'') (sendEmail ''joe'' ''hello'') p1 of
               (r2, p2) \<Rightarrow>
                 if r2 \<noteq> OK then (1, p2)
                 else
                   (case invoke (SystemCall_call ''cd ..'') (systemCall ''cd ..'') p2 of
                      (r3, p3) \<Rightarrow> (0, p3))))"

text \<open>The program as it is linked: \<^verbatim>\<open>main\<close> calls the three operations defined above.\<close>

definition main :: "'a world_scheme \<Rightarrow> int \<times> 'a process" where
  "main = main_driver OpenFile SendEmail SystemCall"

section \<open>Properties\<close>

subsection \<open>Auxiliary facts about the driver\<close>

lemma invoke_eq:
  "invoke c f p =
     (fst (f (env p)), \<lparr>trace = trace p @ [(c, fst (f (env p)))], env = snd (f (env p))\<rparr>)"
  by (simp add: invoke_def split: prod.split)

lemma main_driver_open_fails:
  assumes "fst (openFile ''test.txt'' w) \<noteq> OK"
  shows "main_driver openFile sendEmail systemCall w =
           (1, \<lparr>trace = [(OpenFile_call ''test.txt'', fst (openFile ''test.txt'' w))],
                env = snd (openFile ''test.txt'' w)\<rparr>)"
  using assms by (simp add: main_driver_def invoke_eq)

lemma main_driver_send_fails:
  assumes "fst (openFile ''test.txt'' w) = OK"
    and "fst (sendEmail ''joe'' ''hello'' (snd (openFile ''test.txt'' w))) \<noteq> OK"
  shows "main_driver openFile sendEmail systemCall w =
           (1, \<lparr>trace = [(OpenFile_call ''test.txt'', OK),
                         (SendEmail_call ''joe'' ''hello'',
                          fst (sendEmail ''joe'' ''hello'' (snd (openFile ''test.txt'' w))))],
                env = snd (sendEmail ''joe'' ''hello'' (snd (openFile ''test.txt'' w)))\<rparr>)"
  using assms by (simp add: main_driver_def invoke_eq)

lemma main_driver_checks_pass:
  assumes "fst (openFile ''test.txt'' w) = OK"
    and "fst (sendEmail ''joe'' ''hello'' (snd (openFile ''test.txt'' w))) = OK"
  shows "main_driver openFile sendEmail systemCall w =
           (0, \<lparr>trace = [(OpenFile_call ''test.txt'', OK),
                         (SendEmail_call ''joe'' ''hello'', OK),
                         (SystemCall_call ''cd ..'',
                          fst (systemCall ''cd ..''
                                 (snd (sendEmail ''joe'' ''hello''
                                         (snd (openFile ''test.txt'' w))))))],
                env = snd (systemCall ''cd ..''
                             (snd (sendEmail ''joe'' ''hello''
                                     (snd (openFile ''test.txt'' w)))))\<rparr>)"
  using assms by (simp add: main_driver_def invoke_eq)

subsection \<open>The operations\<close>

text \<open>
  Claim C4. For every text \<open>fileName\<close>, \<open>OpenFile fileName\<close> returns \<open>OK\<close> and has no
  side effect: whatever the environment is, it is handed back unchanged.
\<close>

theorem OpenFile_returns_OK: "OpenFile fileName w = (OK, w)"
  by (simp add: OpenFile_def)

text \<open>
  Claim C5. For every pair of texts \<open>sendto\<close> (the recipient) and \<open>text\<close> (the body),
  \<open>SendEmail sendto text\<close> returns \<open>OK\<close> and has no side effect.
\<close>

theorem SendEmail_returns_OK: "SendEmail sendto text w = (OK, w)"
  by (simp add: SendEmail_def)

text \<open>
  Claim C6. For every text \<open>text\<close> (the command), \<open>SystemCall text\<close> returns \<open>OK\<close> and
  has no side effect.
\<close>

theorem SystemCall_returns_OK: "SystemCall text w = (OK, w)"
  by (simp add: SystemCall_def)

text \<open>
  Claim C9. Each of the three operations is pure, stateless and deterministic: the
  status it returns is the same in any two environments (no state is read), the
  environment is handed back as it was (no state is written), and so two calls with
  the same arguments return the same status, which is the only thing the call
  produces.
\<close>

theorem operations_pure_deterministic:
  "fst (OpenFile fileName w) = fst (OpenFile fileName w') \<and>
   snd (OpenFile fileName w) = w \<and>
   fst (SendEmail sendto text w) = fst (SendEmail sendto text w') \<and>
   snd (SendEmail sendto text w) = w \<and>
   fst (SystemCall command w) = fst (SystemCall command w') \<and>
   snd (SystemCall command w) = w"
  by (simp add: OpenFile_def SendEmail_def SystemCall_def)

subsection \<open>The driver with arbitrary callees\<close>

text \<open>
  Claim C1. Let \<open>r1\<close> be the status of the \<open>OpenFile\<close> call and \<open>r2\<close> the status of the
  \<open>SendEmail\<close> call that follows it. The exit code of the driver is \<open>1\<close> if one of
  the two is not \<open>OK\<close>, and \<open>0\<close> otherwise. A status other than \<open>OK\<close> ends the run at
  once and is not handled in any other way: the failed call is the last entry of
  the trace, and the environment is the one that call left.
\<close>

theorem main_exit_code:
  fixes openFile :: "string \<Rightarrow> 'a operation"
    and sendEmail :: "string \<Rightarrow> string \<Rightarrow> 'a operation"
    and systemCall :: "string \<Rightarrow> 'a operation"
    and w :: "'a world_scheme"
  defines "r1 \<equiv> fst (openFile ''test.txt'' w)"
    and "w1 \<equiv> snd (openFile ''test.txt'' w)"
  defines "r2 \<equiv> fst (sendEmail ''joe'' ''hello'' w1)"
    and "w2 \<equiv> snd (sendEmail ''joe'' ''hello'' w1)"
  shows
    "fst (main_driver openFile sendEmail systemCall w) =
       (if r1 \<noteq> OK \<or> r2 \<noteq> OK then 1 else 0) \<and>
     (r1 \<noteq> OK \<longrightarrow>
        snd (main_driver openFile sendEmail systemCall w) =
          \<lparr>trace = [(OpenFile_call ''test.txt'', r1)], env = w1\<rparr>) \<and>
     (r1 = OK \<and> r2 \<noteq> OK \<longrightarrow>
        snd (main_driver openFile sendEmail systemCall w) =
          \<lparr>trace = [(OpenFile_call ''test.txt'', OK), (SendEmail_call ''joe'' ''hello'', r2)],
           env = w2\<rparr>)"
proof (cases "r1 = OK")
  case False
  then show ?thesis
    unfolding r1_def w1_def by (simp add: main_driver_open_fails)
next
  case open_ok: True
  show ?thesis
  proof (cases "r2 = OK")
    case False
    with open_ok show ?thesis
      unfolding r1_def w1_def r2_def w2_def by (simp add: main_driver_send_fails)
  next
    case True
    with open_ok show ?thesis
      unfolding r1_def w1_def r2_def w2_def by (simp add: main_driver_checks_pass)
  qed
qed

text \<open>
  The theorem at three runs on an environment with nothing written yet: \<open>OpenFile\<close>
  reports \<open>FileIssue\<close>; \<open>OpenFile\<close> succeeds and \<open>SendEmail\<close> reports \<open>Fatal\<close>; both
  succeed (the stubs of the source).
\<close>

theorem main_exit_code_witness:
  "fst ((\<lambda>n w. (FileIssue, w)) ''test.txt'' \<lparr>stdout = []\<rparr>) \<noteq> OK \<and>
   main_driver (\<lambda>n w. (FileIssue, w)) SendEmail SystemCall \<lparr>stdout = []\<rparr> =
     (1, \<lparr>trace = [(OpenFile_call ''test.txt'', FileIssue)], env = \<lparr>stdout = []\<rparr>\<rparr>) \<and>
   fst (OpenFile ''test.txt'' \<lparr>stdout = []\<rparr>) = OK \<and>
   fst ((\<lambda>n t w. (Fatal, w)) ''joe'' ''hello'' (snd (OpenFile ''test.txt'' \<lparr>stdout = []\<rparr>))) \<noteq> OK \<and>
   main_driver OpenFile (\<lambda>n t w. (Fatal, w)) SystemCall \<lparr>stdout = []\<rparr> =
     (1, \<lparr>trace = [(OpenFile_call ''test.txt'', OK), (SendEmail_call ''joe'' ''hello'', Fatal)],
          env = \<lparr>stdout = []\<rparr>\<rparr>) \<and>
   fst (main_driver OpenFile SendEmail SystemCall \<lparr>stdout = []\<rparr>) = 0"
  using
    main_exit_code [where openFile = "\<lambda>n w. (FileIssue, w)" and sendEmail = SendEmail
      and systemCall = SystemCall and w = "\<lparr>stdout = []\<rparr>"]
    main_exit_code [where openFile = OpenFile and sendEmail = "\<lambda>n t w. (Fatal, w)"
      and systemCall = SystemCall and w = "\<lparr>stdout = []\<rparr>"]
    main_exit_code [where openFile = OpenFile and sendEmail = SendEmail
      and systemCall = SystemCall and w = "\<lparr>stdout = []\<rparr>"]
  by (simp add: OpenFile_def SendEmail_def prod_eq_iff)

text \<open>
  Claim C7. The driver does not examine what \<open>SystemCall\<close> returns: replacing the
  third callee by any other one (another status, another effect) leaves the exit
  code as it was. The exit code depends on the statuses of the \<open>OpenFile\<close> and
  \<open>SendEmail\<close> calls only: two runs, with whatever callees and environments, that
  agree on the status of the \<open>OpenFile\<close> call and, when that is \<open>OK\<close> and \<open>SendEmail\<close> is
  therefore called, on the status of the \<open>SendEmail\<close> call, have the same exit code.
\<close>

theorem main_ignores_SystemCall_result:
  fixes openFile openFile' :: "string \<Rightarrow> 'a operation"
    and sendEmail sendEmail' :: "string \<Rightarrow> string \<Rightarrow> 'a operation"
    and systemCall systemCall' :: "string \<Rightarrow> 'a operation"
  shows
    "fst (main_driver openFile sendEmail systemCall w) =
       fst (main_driver openFile sendEmail systemCall' w) \<and>
     (fst (openFile ''test.txt'' w) = fst (openFile' ''test.txt'' w') \<and>
      (fst (openFile ''test.txt'' w) = OK \<longrightarrow>
         fst (sendEmail ''joe'' ''hello'' (snd (openFile ''test.txt'' w))) =
         fst (sendEmail' ''joe'' ''hello'' (snd (openFile' ''test.txt'' w')))) \<longrightarrow>
      fst (main_driver openFile sendEmail systemCall w) =
        fst (main_driver openFile' sendEmail' systemCall' w'))"
proof -
  have code: "fst (main_driver f g h v) =
      (if fst (f ''test.txt'' v) \<noteq> OK then 1
       else if fst (g ''joe'' ''hello'' (snd (f ''test.txt'' v))) \<noteq> OK then 1 else 0)"
    for f :: "string \<Rightarrow> 'a operation" and g h v
    by (simp add: main_driver_open_fails main_driver_send_fails main_driver_checks_pass)
  show ?thesis
    by (simp add: code)
qed

text \<open>
  The theorem at two runs that differ in the third callee and in the environment:
  the stub against a callee that reports \<open>Fatal\<close> and writes a line.
\<close>

theorem main_ignores_SystemCall_result_witness:
  "fst (OpenFile ''test.txt'' \<lparr>stdout = []\<rparr>) = fst (OpenFile ''test.txt'' \<lparr>stdout = [''x'']\<rparr>) \<and>
   fst (SendEmail ''joe'' ''hello'' (snd (OpenFile ''test.txt'' \<lparr>stdout = []\<rparr>))) =
   fst (SendEmail ''joe'' ''hello'' (snd (OpenFile ''test.txt'' \<lparr>stdout = [''x'']\<rparr>))) \<and>
   fst (main_driver OpenFile SendEmail SystemCall \<lparr>stdout = []\<rparr>) =
   fst (main_driver OpenFile SendEmail
          (\<lambda>c w. (Fatal, w\<lparr>stdout := ''cd'' # stdout w\<rparr>)) \<lparr>stdout = [''x'']\<rparr>)"
  using
    main_ignores_SystemCall_result [where openFile = OpenFile and openFile' = OpenFile
      and sendEmail = SendEmail and sendEmail' = SendEmail
      and systemCall = SystemCall
      and systemCall' = "\<lambda>c w. (Fatal, w\<lparr>stdout := ''cd'' # stdout w\<rparr>)"
      and w = "\<lparr>stdout = []\<rparr>" and w' = "\<lparr>stdout = [''x'']\<rparr>"]
  by (simp add: OpenFile_def SendEmail_def)

text \<open>
  Claim C8. Let \<open>r1\<close>, \<open>r2\<close>, \<open>r3\<close> be the statuses the three callees return and
  \<open>w1\<close>, \<open>w2\<close>, \<open>w3\<close> the environments they leave, each callee run on the
  environment left by the one before it. When \<open>OpenFile\<close> returns \<open>OK\<close>, the driver
  does not stop there: it goes on to run \<open>SendEmail\<close> with \<open>joe\<close> and \<open>hello\<close> on \<open>w1\<close>,
  so the second entry of the trace is that call with the status \<open>r2\<close> it returned,
  and the environment at exit is one that \<open>SendEmail\<close> has acted on (\<open>w2\<close> when the
  run ends at the second test, \<open>w3\<close> otherwise). When \<open>SendEmail\<close> returns \<open>OK\<close> as
  well, the driver does not stop there either: it goes on to run \<open>SystemCall\<close>
  with \<open>cd ..\<close> on \<open>w2\<close>, which is its last call, and control reaches the end of
  \<^verbatim>\<open>main\<close>: the exit code is \<open>0\<close>, the trace is the three calls with their
  statuses, and the environment at exit is \<open>w3\<close>. The trace records a call with
  status \<open>OK\<close> exactly when the callee was reached and returned \<open>OK\<close>.
\<close>

theorem main_continues_after_OK:
  fixes openFile :: "string \<Rightarrow> 'a operation"
    and sendEmail :: "string \<Rightarrow> string \<Rightarrow> 'a operation"
    and systemCall :: "string \<Rightarrow> 'a operation"
    and w :: "'a world_scheme"
  defines "r1 \<equiv> fst (openFile ''test.txt'' w)"
    and "w1 \<equiv> snd (openFile ''test.txt'' w)"
  defines "r2 \<equiv> fst (sendEmail ''joe'' ''hello'' w1)"
    and "w2 \<equiv> snd (sendEmail ''joe'' ''hello'' w1)"
  defines "r3 \<equiv> fst (systemCall ''cd ..'' w2)"
    and "w3 \<equiv> snd (systemCall ''cd ..'' w2)"
  defines "run \<equiv> main_driver openFile sendEmail systemCall w"
  shows
    "(r1 = OK \<longrightarrow>
        take 2 (trace (snd run)) =
          [(OpenFile_call ''test.txt'', OK), (SendEmail_call ''joe'' ''hello'', r2)] \<and>
        env (snd run) = (if r2 = OK then w3 else w2)) \<and>
     (r1 = OK \<and> r2 = OK \<longrightarrow>
        run =
          (0, \<lparr>trace = [(OpenFile_call ''test.txt'', OK), (SendEmail_call ''joe'' ''hello'', OK),
                        (SystemCall_call ''cd ..'', r3)],
               env = w3\<rparr>)) \<and>
     ((OpenFile_call ''test.txt'', OK) \<in> set (trace (snd run)) \<longleftrightarrow> r1 = OK) \<and>
     ((SendEmail_call ''joe'' ''hello'', OK) \<in> set (trace (snd run)) \<longleftrightarrow> r1 = OK \<and> r2 = OK)"
proof (cases "r1 = OK")
  case False
  then have "run = (1, \<lparr>trace = [(OpenFile_call ''test.txt'', r1)], env = w1\<rparr>)"
    unfolding run_def r1_def w1_def by (simp add: main_driver_open_fails)
  with False show ?thesis
    by simp
next
  case open_ok: True
  show ?thesis
  proof (cases "r2 = OK")
    case False
    with open_ok have "run =
        (1, \<lparr>trace = [(OpenFile_call ''test.txt'', OK), (SendEmail_call ''joe'' ''hello'', r2)],
             env = w2\<rparr>)"
      unfolding run_def r1_def w1_def r2_def w2_def by (simp add: main_driver_send_fails)
    with open_ok False show ?thesis
      by simp
  next
    case send_ok: True
    with open_ok have "run =
        (0, \<lparr>trace = [(OpenFile_call ''test.txt'', OK), (SendEmail_call ''joe'' ''hello'', OK),
                      (SystemCall_call ''cd ..'', r3)],
             env = w3\<rparr>)"
      unfolding run_def r1_def w1_def r2_def w2_def r3_def w3_def
      by (simp add: main_driver_checks_pass)
    with open_ok send_ok show ?thesis
      by simp
  qed
qed

text \<open>
  The theorem at two runs, on an environment with nothing written yet, with callees
  that write their first argument to the standard streams, so that a callee that
  was run leaves its mark. In the first run all three return \<open>OK\<close>; in the second
  \<open>SendEmail\<close> returns \<open>System\<close>, and the run ends after the second call.
\<close>

theorem main_continues_after_OK_witness:
  "fst ((\<lambda>n w. (OK, w\<lparr>stdout := stdout w @ [n]\<rparr>)) ''test.txt'' \<lparr>stdout = []\<rparr>) = OK \<and>
   fst ((\<lambda>n t w. (OK, w\<lparr>stdout := stdout w @ [n]\<rparr>)) ''joe'' ''hello''
          \<lparr>stdout = [''test.txt'']\<rparr>) = OK \<and>
   main_driver (\<lambda>n w. (OK, w\<lparr>stdout := stdout w @ [n]\<rparr>))
               (\<lambda>n t w. (OK, w\<lparr>stdout := stdout w @ [n]\<rparr>))
               (\<lambda>n w. (Fatal, w\<lparr>stdout := stdout w @ [n]\<rparr>)) \<lparr>stdout = []\<rparr> =
     (0, \<lparr>trace = [(OpenFile_call ''test.txt'', OK), (SendEmail_call ''joe'' ''hello'', OK),
                   (SystemCall_call ''cd ..'', Fatal)],
          env = \<lparr>stdout = [''test.txt'', ''joe'', ''cd ..'']\<rparr>\<rparr>) \<and>
   take 2 (trace (snd (main_driver (\<lambda>n w. (OK, w\<lparr>stdout := stdout w @ [n]\<rparr>))
                                   (\<lambda>n t w. (System, w\<lparr>stdout := stdout w @ [n]\<rparr>))
                                   SystemCall \<lparr>stdout = []\<rparr>))) =
     [(OpenFile_call ''test.txt'', OK), (SendEmail_call ''joe'' ''hello'', System)] \<and>
   env (snd (main_driver (\<lambda>n w. (OK, w\<lparr>stdout := stdout w @ [n]\<rparr>))
                         (\<lambda>n t w. (System, w\<lparr>stdout := stdout w @ [n]\<rparr>))
                         SystemCall \<lparr>stdout = []\<rparr>)) =
     \<lparr>stdout = [''test.txt'', ''joe'']\<rparr>"
  using
    main_continues_after_OK [where openFile = "\<lambda>n w. (OK, w\<lparr>stdout := stdout w @ [n]\<rparr>)"
      and sendEmail = "\<lambda>n t w. (OK, w\<lparr>stdout := stdout w @ [n]\<rparr>)"
      and systemCall = "\<lambda>n w. (Fatal, w\<lparr>stdout := stdout w @ [n]\<rparr>)"
      and w = "\<lparr>stdout = []\<rparr>"]
    main_continues_after_OK [where openFile = "\<lambda>n w. (OK, w\<lparr>stdout := stdout w @ [n]\<rparr>)"
      and sendEmail = "\<lambda>n t w. (System, w\<lparr>stdout := stdout w @ [n]\<rparr>)"
      and systemCall = SystemCall
      and w = "\<lparr>stdout = []\<rparr>"]
  by simp

subsection \<open>The program\<close>

text \<open>
  Claim C2. The program takes no arguments. Run in any environment, it terminates
  (\<open>main\<close> is a total function that makes three calls of total functions and has
  no loop; the theorem gives its result), its exit code is \<open>0\<close>, and it writes
  nothing: the text on the standard streams, and the rest of the environment, are
  what they were before the run.
\<close>

theorem main_exit_zero_no_output:
  "fst (main w) = 0 \<and> stdout (env (snd (main w))) = stdout w \<and> env (snd (main w)) = w"
  by (simp add: main_def main_driver_def invoke_def OpenFile_def SendEmail_def SystemCall_def)

text \<open>
  Claim C10. With the stubs of the source, neither \<^verbatim>\<open>return 1\<close> of \<^verbatim>\<open>main\<close> can
  be reached. In every environment the \<open>OpenFile\<close> call and the \<open>SendEmail\<close> call
  return \<open>OK\<close>, so both tests fail; every run makes exactly three calls, \<open>OpenFile\<close>,
  \<open>SendEmail\<close>, \<open>SystemCall\<close>, each once and in this order; and the exit code is
  never \<open>1\<close>.
\<close>

theorem main_error_branches_unreachable:
  "fst (OpenFile ''test.txt'' w) = OK \<and>
   fst (SendEmail ''joe'' ''hello'' (snd (OpenFile ''test.txt'' w))) = OK \<and>
   trace (snd (main w)) =
     [(OpenFile_call ''test.txt'', OK), (SendEmail_call ''joe'' ''hello'', OK),
      (SystemCall_call ''cd ..'', OK)] \<and>
   fst (main w) \<noteq> 1"
  by (simp add: main_def main_driver_def invoke_def OpenFile_def SendEmail_def SystemCall_def)

end
